theory Spec2Isabelle
  imports Complex_Main "HOL-Library.Signed_Division"
begin

section \<open>The benchmark client \<open>c-client/client.cpp\<close>\<close>

text \<open>
  The program is one function, \<open>main\<close>. It reads the system clock, creates a client
  through the prellblock client library, formats the numbers \<open>0 .. NUM_TX - 1\<close> into a
  ten-byte buffer and sends each one as a value under the key \<open>prellblock\<close>, destroys the
  client, reads the clock again and prints the elapsed time and the throughput.

  The client library and the clock are outside the program. The model passes the history
  of external calls along as explicit state (a list of events), and takes what the outside
  answers to each call as a parameter, the environment.
\<close>

subsection \<open>Constants of the source\<close>

definition NUM_TX :: nat where
  "NUM_TX = 10000"

definition address :: string where
  "address = ''127.0.0.1:3133''"

definition credential :: string where
  "credential = ''406ed6170c8672e18707fb7512acf3c9dbfc6e5ad267d9a57b9c486a94d99dcc''"

definition key_namespace :: string where
  "key_namespace = ''prellblock''"

text \<open>The capacity of \<open>const char number[10]\<close>.\<close>

definition number_capacity :: nat where
  "number_capacity = 10"

subsection \<open>The value buffer and \<open>sprintf\<close>\<close>

definition NUL :: char where
  "NUL = CHR 0x00"

definition digit_char :: "nat \<Rightarrow> char" where
  "digit_char d = ''0123456789'' ! d"

text \<open>
  What \<open>%lu\<close> prints for an unsigned number: its decimal digits, most significant first,
  with no sign and no padding. The loop counter is a \<open>size_t\<close> that stays below
  \<open>NUM_TX\<close>, so it is carried as a natural number.
\<close>

function decimal :: "nat \<Rightarrow> string" where
  "decimal n = (if n < 10 then [digit_char n] else decimal (n div 10) @ [digit_char (n mod 10)])"
  by pat_completeness auto
termination
  by (relation "measure (\<lambda>n. n)") auto

declare decimal.simps [simp del]

datatype fault = Buffer_overflow

type_synonym buffer = "char list"

text \<open>
  \<open>const char number[10] = {0}\<close>: ten zero bytes. The source declares the array
  \<open>const\<close> and writes to it through the cast \<open>(char *)number\<close>; the model takes it as
  the writable array on the stack that it is compiled to.
\<close>

definition number_init :: buffer where
  "number_init = replicate number_capacity NUL"

text \<open>
  \<open>sprintf(number, "%lu", i)\<close> writes the digits and a terminating zero byte at the start
  of the buffer and leaves the bytes behind them as they were. \<open>sprintf\<close> does not know
  the capacity of its target: writing more bytes than the buffer holds is the fault
  \<open>Buffer_overflow\<close> of the model.
\<close>

definition sprintf_lu :: "buffer \<Rightarrow> nat \<Rightarrow> fault + buffer" where
  "sprintf_lu buf i =
     (let out = decimal i @ [NUL]
      in if length out \<le> length buf then Inr (out @ drop (length out) buf)
         else Inl Buffer_overflow)"

text \<open>The C string a \<open>const char *\<close> argument denotes: the bytes before the first zero byte.\<close>

definition c_str :: "buffer \<Rightarrow> string" where
  "c_str buf = takeWhile (\<lambda>c. c \<noteq> NUL) buf"

subsection \<open>Doubles\<close>

text \<open>
  The program computes with \<open>double\<close> in three divisions. A finite double is carried as
  the rational number it stands for, so the rounding of a conversion or of a quotient is
  not part of the model; the infinities and NaN of IEEE 754 are, because they are what a
  division by zero yields. The divisor zero of the program is always the positive zero
  (it comes from converting the integer 0), so zero carries no sign here.
\<close>

datatype double = Finite rat | PInf | NInf | NaN

definition double_of_int :: "int \<Rightarrow> double" where
  "double_of_int k = Finite (of_int k)"

fun ddiv :: "double \<Rightarrow> double \<Rightarrow> double" where
  "ddiv NaN _ = NaN"
| "ddiv _ NaN = NaN"
| "ddiv (Finite a) (Finite b) =
     (if b = 0 then (if a = 0 then NaN else if 0 < a then PInf else NInf)
      else Finite (a / b))"
| "ddiv (Finite a) PInf = Finite 0"
| "ddiv (Finite a) NInf = Finite 0"
| "ddiv PInf (Finite b) = (if 0 \<le> b then PInf else NInf)"
| "ddiv NInf (Finite b) = (if 0 \<le> b then NInf else PInf)"
| "ddiv PInf PInf = NaN"
| "ddiv PInf NInf = NaN"
| "ddiv NInf PInf = NaN"
| "ddiv NInf NInf = NaN"

subsection \<open>The outside world\<close>

text \<open>
  Modelled from the spec: what the calls into the client library return. The header
  \<open>prellblock-client.h\<close> is not among the sources. The spec gives \<open>connect\<close> a handle or
  a connection error, and the submission an acknowledgement or a remote error. The handle
  of the source is a \<open>prellblock::Client *\<close>, an address, and the one value of a pointer
  that is no handle is the null pointer, 0. The program discards what \<open>send_key_value\<close>
  returns.
\<close>

type_synonym client_ptr = nat

definition null_client :: client_ptr where
  "null_client = 0"

datatype submit_result = Ack | Remote_error

text \<open>
  The clocks of \<open><chrono>\<close>: the system clock shows the time of day and may be set back,
  the steady clock is the monotonic one. The program reads the system clock only.
\<close>

datatype clock = System_clock | Steady_clock

text \<open>What is inserted into \<open>std::cout\<close>, one item per \<open><<\<close>.\<close>

datatype item = Text string | Int_item int | Double_item double | Endl

text \<open>An external call together with what it returned.\<close>

datatype event =
    Now clock int
  | Create_client_instance string string client_ptr
  | Send_key_value client_ptr string string submit_result
  | Destroy_client_instance client_ptr
  | Cout "item list"

text \<open>
  The environment answers each call, knowing all that happened before it. A reading of
  the clock is a number of ticks since the epoch; a tick of the system clock is taken to
  be a nanosecond, as it is in the GNU C++ library. Readings and their differences are
  64-bit numbers in the source; they are integers here, since no time of this age comes
  near the bounds. The calls are taken to return: a call into the library that does not
  come back is not a run of the model.
\<close>

record env =
  clock_reading :: "clock \<Rightarrow> event list \<Rightarrow> int"
  connect :: "event list \<Rightarrow> string \<Rightarrow> string \<Rightarrow> client_ptr"
  submit :: "event list \<Rightarrow> client_ptr \<Rightarrow> string \<Rightarrow> string \<Rightarrow> submit_result"

definition now :: "env \<Rightarrow> clock \<Rightarrow> event list \<Rightarrow> int \<times> event list" where
  "now e c tr = (let t = clock_reading e c tr in (t, tr @ [Now c t]))"

definition create_client_instance ::
  "env \<Rightarrow> string \<Rightarrow> string \<Rightarrow> event list \<Rightarrow> client_ptr \<times> event list" where
  "create_client_instance e addr cred tr =
     (let h = connect e tr addr cred in (h, tr @ [Create_client_instance addr cred h]))"

definition send_key_value ::
  "env \<Rightarrow> client_ptr \<Rightarrow> string \<Rightarrow> string \<Rightarrow> event list \<Rightarrow> submit_result \<times> event list" where
  "send_key_value e h k v tr =
     (let r = submit e tr h k v in (r, tr @ [Send_key_value h k v r]))"

definition destroy_client_instance :: "client_ptr \<Rightarrow> event list \<Rightarrow> event list" where
  "destroy_client_instance h tr = tr @ [Destroy_client_instance h]"

text \<open>
  \<open>duration_cast<microseconds>\<close> of a number of nanoseconds: integer division that
  truncates towards zero.
\<close>

definition duration_cast_microseconds :: "int \<Rightarrow> int" where
  "duration_cast_microseconds d = d sdiv 1000"

subsection \<open>\<open>main\<close>\<close>

text \<open>
  The loop \<open>for (size_t i = 0; i < NUM_TX; i++)\<close>, from counter \<open>i\<close> on. The result of
  \<open>send_key_value\<close> is dropped, as in the source.
\<close>

function send_loop ::
  "env \<Rightarrow> nat \<Rightarrow> client_ptr \<Rightarrow> nat \<Rightarrow> buffer \<Rightarrow> event list \<Rightarrow> fault + (buffer \<times> event list)" where
  "send_loop e n client i number tr =
     (if i < n then
        (case sprintf_lu number i of
           Inl f \<Rightarrow> Inl f
         | Inr number' \<Rightarrow>
             send_loop e n client (i + 1) number'
               (snd (send_key_value e client key_namespace (c_str number') tr)))
      else Inr (number, tr))"
  by pat_completeness auto
termination
  by (relation "measure (\<lambda>(e, n, client, i, number, tr). n - i)") auto

declare send_loop.simps [simp del]

text \<open>The local variables of \<open>main\<close> when it returns, and the history of its calls.\<close>

record outcome =
  exit_code :: int
  start :: int
  client :: client_ptr
  finish :: int
  microseconds :: int
  seconds :: double
  tps :: double
  report :: "item list"
  trace :: "event list"

text \<open>The body of \<open>main\<close>, for a transaction count \<open>n\<close> in place of the macro.\<close>

definition run :: "nat \<Rightarrow> env \<Rightarrow> fault + outcome" where
  "run n e =
     (let (t0, tr1) = now e System_clock [];
          (cl, tr2) = create_client_instance e address credential tr1
      in case send_loop e n cl 0 number_init tr2 of
           Inl f \<Rightarrow> Inl f
         | Inr (number, tr3) \<Rightarrow>
             (let tr4 = destroy_client_instance cl tr3;
                  (t1, tr5) = now e System_clock tr4;
                  us = duration_cast_microseconds (t1 - t0);
                  secs = ddiv (ddiv (double_of_int us) (double_of_int 1000)) (double_of_int 1000);
                  rate = ddiv (double_of_int (int n)) secs;
                  items = [Text ''Sending '', Int_item (int n), Text '' transactions took '',
                           Double_item secs, Text ''s, resulting in '', Double_item rate,
                           Text ''TPS.'', Endl]
              in Inr \<lparr>exit_code = 0, start = t0, client = cl, finish = t1, microseconds = us,
                      seconds = secs, tps = rate, report = items, trace = tr5 @ [Cout items]\<rparr>))"

definition main :: "env \<Rightarrow> fault + outcome" where
  "main e = run NUM_TX e"

subsection \<open>Reading a history\<close>

text \<open>
  The observations that the properties below are stated with: the kind of a call, the
  arguments and the results of the submissions, and the text that \<open>std::cout\<close> shows for
  the items of a report.
\<close>

datatype kind = K_now | K_create | K_send | K_destroy | K_cout

fun kind_of :: "event \<Rightarrow> kind" where
  "kind_of (Now c t) = K_now"
| "kind_of (Create_client_instance a c h) = K_create"
| "kind_of (Send_key_value h k v r) = K_send"
| "kind_of (Destroy_client_instance h) = K_destroy"
| "kind_of (Cout items) = K_cout"

fun send_args :: "event \<Rightarrow> (client_ptr \<times> string \<times> string) list" where
  "send_args (Send_key_value h k v r) = [(h, k, v)]"
| "send_args _ = []"

definition sent :: "event list \<Rightarrow> (client_ptr \<times> string \<times> string) list" where
  "sent tr = concat (map send_args tr)"

definition submitted :: "event list \<Rightarrow> (string \<times> string) list" where
  "submitted tr = map snd (sent tr)"

fun is_ack :: "event \<Rightarrow> bool" where
  "is_ack (Send_key_value h k v r) = (r = Ack)"
| "is_ack _ = False"

definition successful_count :: "event list \<Rightarrow> nat" where
  "successful_count tr = length (filter is_ack tr)"

fun send_result :: "event \<Rightarrow> submit_result list" where
  "send_result (Send_key_value h k v r) = [r]"
| "send_result _ = []"

definition results :: "event list \<Rightarrow> submit_result list" where
  "results tr = concat (map send_result tr)"

text \<open>
  Where the first and the last call of a kind stand in a history (the length of the history
  when there is none).
\<close>

definition first_index :: "kind \<Rightarrow> event list \<Rightarrow> nat" where
  "first_index k tr = length (takeWhile (\<lambda>ev. kind_of ev \<noteq> k) tr)"

definition last_index :: "kind \<Rightarrow> event list \<Rightarrow> nat" where
  "last_index k tr = length tr - 1 - first_index k (rev tr)"

text \<open>The number that a string of decimal digits denotes.\<close>

definition digit_value :: "char \<Rightarrow> nat" where
  "digit_value c = of_char c - 48"

definition decimal_value :: "string \<Rightarrow> nat" where
  "decimal_value s = foldl (\<lambda>a c. 10 * a + digit_value c) 0 s"

text \<open>
  The text of a report. How the stream formats a \<open>double\<close> belongs to the C++ library
  and is a parameter; an \<open>int\<close> is printed in decimal.
\<close>

fun show_item :: "(double \<Rightarrow> string) \<Rightarrow> item \<Rightarrow> string" where
  "show_item fmt (Text s) = s"
| "show_item fmt (Int_item k) =
     (if k < 0 then CHR ''-'' # decimal (nat (- k)) else decimal (nat k))"
| "show_item fmt (Double_item d) = fmt d"
| "show_item fmt Endl = [CHR 0x0A]"

definition report_text :: "(double \<Rightarrow> string) \<Rightarrow> item list \<Rightarrow> string" where
  "report_text fmt items = concat (map (show_item fmt) items)"

subsection \<open>The process\<close>

text \<open>
  The entry point is declared \<open>int main(void)\<close>: the arguments that the process is
  started with do not reach it, and the program reads no file and no variable of its
  surroundings.
\<close>

definition program :: "string list \<Rightarrow> env \<Rightarrow> fault + outcome" where
  "program argv e = main e"

subsection \<open>The session behind a client handle\<close>

text \<open>
  Modelled from the spec: the lifecycle of the session that \<open>destroy_client_instance\<close>
  ends. The function belongs to the prellblock client library, whose code is not among the
  sources of the program. The spec describes its \<open>close\<close>: it "releases the connection,
  transitions to Closed. Idempotent: closing an already-Closed session is a no-op, not an
  error."
\<close>

datatype session = Open | Closed

datatype session_error = Submit_error

definition close :: "session \<Rightarrow> session_error + session" where
  "close s = Inr Closed"

subsection \<open>Environments to run the program in\<close>

text \<open>
  An environment whose clock shows \<open>t0\<close> at the first reading and \<open>t1\<close> afterwards, whose
  \<open>create_client_instance\<close> returns \<open>h\<close> and whose \<open>send_key_value\<close> always answers \<open>r\<close>.
\<close>

definition test_env :: "int \<Rightarrow> int \<Rightarrow> client_ptr \<Rightarrow> submit_result \<Rightarrow> env" where
  "test_env t0 t1 h r =
     \<lparr>clock_reading = (\<lambda>c tr. if tr = [] then t0 else t1),
      connect = (\<lambda>tr a c. h),
      submit = (\<lambda>tr c k v. r)\<rparr>"

section \<open>The value buffer\<close>

lemma digit_char_not_NUL: "d < 10 \<Longrightarrow> digit_char d \<noteq> NUL"
proof -
  assume "d < 10"
  then have "d \<in> {0, 1, 2, 3, 4, 5, 6, 7, 8, 9}" by auto
  then show ?thesis by (auto simp: digit_char_def NUL_def)
qed

lemma decimal_no_NUL: "NUL \<notin> set (decimal n)"
proof (induction n rule: decimal.induct)
  case (1 n)
  show ?case
  proof (cases "n < 10")
    case True
    then show ?thesis using digit_char_not_NUL [of n] by (simp add: decimal.simps [of n])
  next
    case False
    then show ?thesis
      using 1 digit_char_not_NUL [of "n mod 10"] by (simp add: decimal.simps [of n])
  qed
qed

lemma length_decimal_le: "0 < k \<Longrightarrow> n < 10 ^ k \<Longrightarrow> length (decimal n) \<le> k"
proof (induction n arbitrary: k rule: decimal.induct)
  case (1 n)
  show ?case
  proof (cases "n < 10")
    case True
    then show ?thesis using "1.prems" by (simp add: decimal.simps [of n])
  next
    case False
    with "1.prems" have k: "1 < k" by (cases "k = 1") auto
    then obtain j where j: "k = Suc j" "0 < j" by (cases k) auto
    from "1.prems" j have "n div 10 < 10 ^ j"
      by (simp add: less_mult_imp_div_less mult.commute)
    with "1.IH" False j have "length (decimal (n div 10)) \<le> j" by simp
    then show ?thesis using False j by (simp add: decimal.simps [of n])
  qed
qed

section \<open>The submission loop and \<open>main\<close>\<close>

lemma sprintf_lu_Inr:
  assumes "sprintf_lu buf i = Inr buf'"
  shows "length buf' = length buf" and "c_str buf' = decimal i"
proof -
  from assms have le: "length (decimal i) + 1 \<le> length buf"
    and eq: "buf' = decimal i @ NUL # drop (length (decimal i) + 1) buf"
    by (auto simp: sprintf_lu_def Let_def split: if_splits)
  from le eq show "length buf' = length buf" by simp
  have "\<forall>c \<in> set (decimal i). c \<noteq> NUL" using decimal_no_NUL [of i] by auto
  then show "c_str buf' = decimal i"
    by (simp add: c_str_def eq)
qed

lemma sprintf_lu_fits:
  assumes "length buf = number_capacity" and "i < 10 ^ 9"
  shows "\<exists>buf'. sprintf_lu buf i = Inr buf'"
proof -
  from assms(2) have "length (decimal i) \<le> 9" by (intro length_decimal_le) simp_all
  with assms(1) show ?thesis by (simp add: sprintf_lu_def Let_def number_capacity_def)
qed

lemma send_loop_Inr:
  "send_loop e n h i buf tr = Inr (buf', tr') \<Longrightarrow>
   \<exists>sends. tr' = tr @ sends \<and> map kind_of sends = replicate (n - i) K_send \<and>
           sent sends = map (\<lambda>k. (h, key_namespace, decimal k)) [i..<n]"
proof (induction e n h i buf tr rule: send_loop.induct)
  case (1 e n h i buf tr)
  show ?case
  proof (cases "i < n")
    case False
    with "1.prems" show ?thesis by (simp add: send_loop.simps [of e n h i] sent_def)
  next
    case True
    with "1.prems" obtain buf1 where b: "sprintf_lu buf i = Inr buf1"
      and rest: "send_loop e n h (i + 1) buf1
                  (snd (send_key_value e h key_namespace (c_str buf1) tr)) = Inr (buf', tr')"
      by (auto simp: send_loop.simps [of e n h i] split: sum.splits)
    define ev where "ev = Send_key_value h key_namespace (decimal i)
                             (submit e tr h key_namespace (decimal i))"
    have tr1: "snd (send_key_value e h key_namespace (c_str buf1) tr) = tr @ [ev]"
      using sprintf_lu_Inr(2) [OF b] by (simp add: send_key_value_def Let_def ev_def)
    from "1.IH" [OF True b] rest obtain sends where
      s: "tr' = (tr @ [ev]) @ sends" "map kind_of sends = replicate (n - (i + 1)) K_send"
         "sent sends = map (\<lambda>k. (h, key_namespace, decimal k)) [i + 1..<n]"
      unfolding tr1 by blast
    have n: "n - i = Suc (n - (i + 1))" using True by simp
    have "tr' = tr @ (ev # sends)" using s(1) by simp
    moreover have "map kind_of (ev # sends) = replicate (n - i) K_send"
      using s(2) by (simp add: n ev_def)
    moreover have "sent (ev # sends) = map (\<lambda>k. (h, key_namespace, decimal k)) [i..<n]"
      using s(3) True by (simp add: sent_def ev_def upt_conv_Cons)
    ultimately show ?thesis by blast
  qed
qed

lemma send_loop_total:
  "n \<le> 10 ^ 9 \<Longrightarrow> length buf = number_capacity \<Longrightarrow> \<exists>r. send_loop e n h i buf tr = Inr r"
proof (induction e n h i buf tr rule: send_loop.induct)
  case (1 e n h i buf tr)
  show ?case
  proof (cases "i < n")
    case False
    then show ?thesis by (simp add: send_loop.simps [of e n h i])
  next
    case True
    with "1.prems" have "i < 10 ^ 9" by simp
    from sprintf_lu_fits [OF "1.prems"(2) this] obtain buf1 where b: "sprintf_lu buf i = Inr buf1" ..
    have "length buf1 = number_capacity" using sprintf_lu_Inr(1) [OF b] "1.prems"(2) by simp
    from "1.IH" [OF True b "1.prems"(1) this] show ?thesis
      using True b by (simp add: send_loop.simps [of e n h i])
  qed
qed


lemma send_loop_constant_answer:
  "(\<And>t c k v. submit e t c k v = r) \<Longrightarrow> send_loop e n h i buf tr = Inr (buf', tr') \<Longrightarrow>
   successful_count tr' = successful_count tr + (if r = Ack then n - i else 0)"
proof (induction e n h i buf tr rule: send_loop.induct)
  case (1 e n h i buf tr)
  show ?case
  proof (cases "i < n")
    case False
    with "1.prems"(2) show ?thesis by (simp add: send_loop.simps [of e n h i])
  next
    case True
    with "1.prems"(2) obtain buf1 where b: "sprintf_lu buf i = Inr buf1"
      and rest: "send_loop e n h (i + 1) buf1
                  (snd (send_key_value e h key_namespace (c_str buf1) tr)) = Inr (buf', tr')"
      by (auto simp: send_loop.simps [of e n h i] split: sum.splits)
    have "successful_count (snd (send_key_value e h key_namespace (c_str buf1) tr)) =
          successful_count tr + (if r = Ack then 1 else 0)"
      by (simp add: send_key_value_def Let_def successful_count_def "1.prems"(1))
    with "1.IH" [OF True b "1.prems"(1) rest] True show ?thesis by auto
  qed
qed

lemma run_Inr:
  assumes "run n e = Inr out"
  shows "\<exists>sends.
     trace out = Now System_clock (start out)
                 # Create_client_instance address credential (client out)
                 # sends @ [Destroy_client_instance (client out),
                            Now System_clock (finish out), Cout (report out)] \<and>
     map kind_of sends = replicate n K_send \<and>
     sent sends = map (\<lambda>k. (client out, key_namespace, decimal k)) [0..<n]"
proof -
  define t0 where "t0 = clock_reading e System_clock []"
  define cl where "cl = connect e [Now System_clock t0] address credential"
  define tr2 where "tr2 = [Now System_clock t0, Create_client_instance address credential cl]"
  from assms obtain number tr3 where
    loop: "send_loop e n cl 0 number_init tr2 = Inr (number, tr3)"
    and out: "start out = t0" "client out = cl"
      "trace out = tr3 @ [Destroy_client_instance cl, Now System_clock (finish out),
                          Cout (report out)]"
    by (auto simp: run_def now_def create_client_instance_def destroy_client_instance_def
        Let_def t0_def cl_def tr2_def split: sum.splits)
  from send_loop_Inr [OF loop] obtain sends where
    "tr3 = tr2 @ sends" "map kind_of sends = replicate n K_send"
    "sent sends = map (\<lambda>k. (cl, key_namespace, decimal k)) [0..<n]"
    by auto
  with out show ?thesis by (auto simp: tr2_def)
qed

lemma run_fields:
  assumes "run n e = Inr out"
  shows "exit_code out = 0"
    and "start out = clock_reading e System_clock []"
    and "client out = connect e [Now System_clock (start out)] address credential"
    and "microseconds out = duration_cast_microseconds (finish out - start out)"
    and "seconds out =
           ddiv (ddiv (double_of_int (microseconds out)) (double_of_int 1000)) (double_of_int 1000)"
    and "tps out = ddiv (double_of_int (int n)) (seconds out)"
    and "report out = [Text ''Sending '', Int_item (int n), Text '' transactions took '',
                       Double_item (seconds out), Text ''s, resulting in '',
                       Double_item (tps out), Text ''TPS.'', Endl]"
  using assms
  by (auto simp: run_def now_def create_client_instance_def Let_def split: sum.splits)

lemma run_total:
  assumes "n \<le> 10 ^ 9"
  shows "\<exists>out. run n e = Inr out"
proof -
  obtain t0 tr1 where a: "now e System_clock [] = (t0, tr1)" by force
  obtain cl tr2 where b: "create_client_instance e address credential tr1 = (cl, tr2)" by force
  have "length number_init = number_capacity" by (simp add: number_init_def)
  from send_loop_total [OF assms this] obtain number tr3 where
    "send_loop e n cl 0 number_init tr2 = Inr (number, tr3)" by force
  with a b show ?thesis by (simp add: run_def Let_def split: prod.splits)
qed

lemma main_total: "\<exists>out. main e = Inr out"
  unfolding main_def by (rule run_total) (simp add: NUM_TX_def)

lemma digit_value_digit_char: "d < 10 \<Longrightarrow> digit_value (digit_char d) = d"
proof -
  assume "d < 10"
  then have "d \<in> {0, 1, 2, 3, 4, 5, 6, 7, 8, 9}" by auto
  then show ?thesis by (auto simp: digit_value_def digit_char_def)
qed

lemma decimal_value_decimal: "decimal_value (decimal n) = n"
proof (induction n rule: decimal.induct)
  case (1 n)
  show ?case
  proof (cases "n < 10")
    case True
    then show ?thesis
      by (simp add: decimal.simps [of n] decimal_value_def digit_value_digit_char)
  next
    case False
    with 1 have "decimal_value (decimal (n div 10)) = n div 10" by simp
    then show ?thesis using False
      by (simp add: decimal.simps [of n] decimal_value_def digit_value_digit_char)
  qed
qed

lemma run_submitted:
  assumes "run n e = Inr out"
  shows "sent (trace out) = map (\<lambda>i. (client out, key_namespace, decimal i)) [0..<n]"
proof -
  from run_Inr [OF assms] obtain sends where
    "trace out = Now System_clock (start out)
                 # Create_client_instance address credential (client out)
                 # sends @ [Destroy_client_instance (client out),
                            Now System_clock (finish out), Cout (report out)]"
    "sent sends = map (\<lambda>k. (client out, key_namespace, decimal k)) [0..<n]"
    by blast
  then show ?thesis by (simp add: sent_def)
qed

section \<open>The outcome of a run\<close>

lemma test_env_simps [simp]:
  "clock_reading (test_env t0 t1 h r) c tr = (if tr = [] then t0 else t1)"
  "connect (test_env t0 t1 h r) tr a cr = h"
  "submit (test_env t0 t1 h r) tr cl k v = r"
  by (simp_all add: test_env_def)

lemma run_finish:
  assumes "run n e = Inr out"
  shows "\<exists>tr. tr \<noteq> [] \<and> finish out = clock_reading e System_clock tr"
  using assms
  by (auto simp: run_def now_def create_client_instance_def destroy_client_instance_def
      Let_def split: sum.splits)

lemma successful_count_append:
  "successful_count (xs @ ys) = successful_count xs + successful_count ys"
  by (simp add: successful_count_def)

lemma run_constant_answer:
  assumes "\<And>t c k v. submit e t c k v = r" and "run n e = Inr out"
  shows "successful_count (trace out) = (if r = Ack then n else 0)"
proof -
  define t0 where "t0 = clock_reading e System_clock []"
  define cl where "cl = connect e [Now System_clock t0] address credential"
  define tr2 where "tr2 = [Now System_clock t0, Create_client_instance address credential cl]"
  from assms(2) obtain number tr3 where
    loop: "send_loop e n cl 0 number_init tr2 = Inr (number, tr3)"
    and out: "trace out = tr3 @ [Destroy_client_instance cl, Now System_clock (finish out),
                                Cout (report out)]"
    by (auto simp: run_def now_def create_client_instance_def destroy_client_instance_def
        Let_def t0_def cl_def tr2_def split: sum.splits)
  have "successful_count tr2 = 0" by (simp add: successful_count_def tr2_def)
  with send_loop_constant_answer [OF assms(1) loop]
  have "successful_count tr3 = (if r = Ack then n else 0)" by simp
  then show ?thesis by (simp add: out successful_count_append) (simp add: successful_count_def)
qed

lemma run_test_env:
  assumes "run n (test_env t0 t1 h r) = Inr out"
  shows "start out = t0" and "finish out = t1" and "client out = h"
    and "successful_count (trace out) = (if r = Ack then n else 0)"
proof -
  show "start out = t0" using run_fields(2) [OF assms] by simp
  show "finish out = t1" using run_finish [OF assms] by auto
  show "client out = h" using run_fields(3) [OF assms] by simp
  show "successful_count (trace out) = (if r = Ack then n else 0)"
    by (rule run_constant_answer [OF _ assms]) simp
qed

lemma main_projr: "main e = Inr (projr (main e))"
  using main_total [of e] by auto



lemma kinds_all_send:
  assumes "map kind_of sends = replicate n K_send"
  shows "length sends = n" and "\<And>ev. ev \<in> set sends \<Longrightarrow> kind_of ev = K_send"
proof -
  from assms have "length (map kind_of sends) = n" by simp
  then show "length sends = n" by simp
  fix ev assume "ev \<in> set sends"
  then have "kind_of ev \<in> set (map kind_of sends)" by simp
  then show "kind_of ev = K_send" unfolding assms by simp
qed

lemma first_index_skip:
  assumes "\<And>ev. ev \<in> set xs \<Longrightarrow> kind_of ev \<noteq> k"
  shows "first_index k (xs @ ys) = length xs + first_index k ys"
  using assms by (simp add: first_index_def takeWhile_append2)

lemma main_trace:
  assumes "main e = Inr out"
  shows "\<exists>sends.
     trace out = Now System_clock (start out)
                 # Create_client_instance address credential (client out)
                 # sends @ [Destroy_client_instance (client out),
                            Now System_clock (finish out), Cout (report out)] \<and>
     map kind_of sends = replicate NUM_TX K_send \<and>
     sent sends = map (\<lambda>k. (client out, key_namespace, decimal k)) [0..<NUM_TX]"
  using assms unfolding main_def by (rule run_Inr)

lemma main_sent:
  assumes "main e = Inr out"
  shows "sent (trace out) = map (\<lambda>i. (client out, key_namespace, decimal i)) [0..<NUM_TX]"
  using assms unfolding main_def by (rule run_submitted)

lemma main_last:
  assumes "main e = Inr out"
  shows "last (trace out) = Cout (report out)"
proof -
  from main_trace [OF assms] obtain sends where
    "trace out = Now System_clock (start out)
                 # Create_client_instance address credential (client out)
                 # sends @ [Destroy_client_instance (client out),
                            Now System_clock (finish out), Cout (report out)]"
    by blast
  then show ?thesis by simp
qed

lemma main_report:
  assumes "main e = Inr out"
  shows "report out = [Text ''Sending '', Int_item (int NUM_TX), Text '' transactions took '',
                       Double_item (seconds out), Text ''s, resulting in '',
                       Double_item (tps out), Text ''TPS.'', Endl]"
  using assms unfolding main_def by (rule run_fields(7))

lemma main_exit_code:
  assumes "main e = Inr out"
  shows "exit_code out = 0"
  using assms unfolding main_def by (rule run_fields(1))

lemma decimal_10000: "decimal 10000 = ''10000''"
  by (simp add: decimal.simps digit_char_def)

lemma main_submitted:
  assumes "main e = Inr out"
  shows "submitted (trace out) = map (\<lambda>i. (key_namespace, decimal i)) [0..<NUM_TX]"
  by (simp add: submitted_def main_sent [OF assms] o_def)

lemma main_create:
  assumes "main e = Inr out"
  shows "trace out ! 1 = Create_client_instance address credential (client out)"
proof -
  from main_trace [OF assms] obtain sends where
    "trace out = Now System_clock (start out)
                 # Create_client_instance address credential (client out)
                 # sends @ [Destroy_client_instance (client out),
                            Now System_clock (finish out), Cout (report out)]"
    by blast
  then show ?thesis by simp
qed

lemma sends_determined:
  "map kind_of xs = replicate n K_send \<Longrightarrow> map kind_of ys = replicate n K_send \<Longrightarrow>
   sent xs = sent ys \<Longrightarrow> results xs = results ys \<Longrightarrow> xs = ys"
proof (induction xs arbitrary: ys n)
  case Nil
  then show ?case by simp
next
  case (Cons x xs)
  from Cons.prems(1) obtain n' where n: "n = Suc n'" by (cases n) auto
  with Cons.prems(2) obtain y ys' where ys: "ys = y # ys'" by (cases ys) auto
  from Cons.prems(1) n obtain h k v r where x: "x = Send_key_value h k v r"
    by (cases x) auto
  from Cons.prems(2) n ys obtain h' k' v' r' where y: "y = Send_key_value h' k' v' r'"
    by (cases y) auto
  from Cons.prems(3,4) have "x = y" "sent xs = sent ys'" "results xs = results ys'"
    by (simp_all add: x y ys sent_def results_def)
  moreover from Cons.prems(1,2) have "map kind_of xs = replicate n' K_send"
    "map kind_of ys' = replicate n' K_send"
    by (simp_all add: n ys)
  ultimately show ?case using Cons.IH [of n' ys'] by (simp add: ys)
qed

lemma results_main:
  assumes "trace out = a # b # sends @ [c, d, f]"
    and "kind_of a \<noteq> K_send" "kind_of b \<noteq> K_send" "kind_of c \<noteq> K_send"
    "kind_of d \<noteq> K_send" "kind_of f \<noteq> K_send"
  shows "results (trace out) = results sends"
proof -
  have "\<And>ev. kind_of ev \<noteq> K_send \<Longrightarrow> send_result ev = []"
    subgoal for ev by (cases ev) simp_all
    done
  with assms show ?thesis by (simp add: results_def)
qed

section \<open>Properties\<close>

text \<open>
  C1. For every transaction count \<open>n\<close>, a run that completes submits exactly \<open>n\<close>
  transactions; their values are the decimal strings of \<open>0, 1, ..., n - 1\<close> in this order,
  with no gap, duplicate or reordering, and the key of every one of them is the same fixed
  namespace. Every count up to \<open>10 ^ 9\<close>, the largest whose counters fit the buffer, gives a
  run that completes.
\<close>

theorem submissions_in_order:
  "(n \<le> 10 ^ 9 \<longrightarrow> (\<exists>out. run n e = Inr out)) \<and>
   (\<forall>out. run n e = Inr out \<longrightarrow>
      submitted (trace out) = map (\<lambda>i. (key_namespace, decimal i)) [0..<n] \<and>
      map (\<lambda>kv. decimal_value (snd kv)) (submitted (trace out)) = [0..<n])"
proof (intro conjI impI allI)
  assume "n \<le> 10 ^ 9"
  then show "\<exists>out. run n e = Inr out" by (rule run_total)
next
  fix out assume r: "run n e = Inr out"
  show s: "submitted (trace out) = map (\<lambda>i. (key_namespace, decimal i)) [0..<n]"
    by (simp add: submitted_def run_submitted [OF r] o_def)
  show "map (\<lambda>kv. decimal_value (snd kv)) (submitted (trace out)) = [0..<n]"
    by (simp add: s o_def decimal_value_decimal map_idI)
qed

theorem submissions_in_order_witness:
  "(3::nat) \<le> 10 ^ 9 \<and>
   (\<exists>out. run 3 (test_env 0 2000000000 1 Ack) = Inr out \<and>
      submitted (trace out) =
        [(''prellblock'', ''0''), (''prellblock'', ''1''), (''prellblock'', ''2'')])"
proof -
  have "(3::nat) \<le> 10 ^ 9" by simp
  with submissions_in_order [of 3 "test_env 0 2000000000 1 Ack"] obtain out where
    "run 3 (test_env 0 2000000000 1 Ack) = Inr out"
    "submitted (trace out) = map (\<lambda>i. (key_namespace, decimal i)) [0..<3]"
    by blast
  then show ?thesis
    by (auto simp: key_namespace_def decimal.simps digit_char_def upt_rec)
qed




text \<open>
  C3 as it is stated does not hold: the first clock reading is the very first call of a
  run, before the client is created, and the last clock reading comes after the client is
  destroyed. The clock is the system clock.
\<close>

theorem timestamps_counterexample:
  "main (test_env 0 2000000000 1 Ack) = Inr (projr (main (test_env 0 2000000000 1 Ack))) \<and>
   trace (projr (main (test_env 0 2000000000 1 Ack))) ! 0 = Now System_clock 0 \<and>
   first_index K_now (trace (projr (main (test_env 0 2000000000 1 Ack)))) = 0 \<and>
   first_index K_create (trace (projr (main (test_env 0 2000000000 1 Ack)))) = 1 \<and>
   first_index K_destroy (trace (projr (main (test_env 0 2000000000 1 Ack)))) = NUM_TX + 2 \<and>
   last_index K_now (trace (projr (main (test_env 0 2000000000 1 Ack)))) = NUM_TX + 3 \<and>
   trace (projr (main (test_env 0 2000000000 1 Ack))) ! (NUM_TX + 3) = Now System_clock 2000000000 \<and>
   \<not> first_index K_create (trace (projr (main (test_env 0 2000000000 1 Ack))))
       < first_index K_now (trace (projr (main (test_env 0 2000000000 1 Ack)))) \<and>
   \<not> last_index K_now (trace (projr (main (test_env 0 2000000000 1 Ack))))
       < first_index K_destroy (trace (projr (main (test_env 0 2000000000 1 Ack))))"
proof -
  define out where "out = projr (main (test_env 0 2000000000 1 Ack))"
  have m: "main (test_env 0 2000000000 1 Ack) = Inr out"
    unfolding out_def by (rule main_projr)
  then have r: "run NUM_TX (test_env 0 2000000000 1 Ack) = Inr out"
    by (simp add: main_def)
  note f = run_test_env(1,2,3) [OF r]
  from main_trace [OF m] obtain sends where
    tr: "trace out = Now System_clock 0 # Create_client_instance address credential 1
                 # sends @ [Destroy_client_instance 1, Now System_clock 2000000000,
                            Cout (report out)]"
    and k: "map kind_of sends = replicate NUM_TX K_send"
    unfolding f by blast
  note ks = kinds_all_send [OF k]
  have a: "first_index K_now (trace out) = 0" by (simp add: tr first_index_def)
  have b: "first_index K_create (trace out) = 1" by (simp add: tr first_index_def)
  have "first_index K_destroy (sends @ [Destroy_client_instance 1,
          Now System_clock 2000000000, Cout (report out)]) = NUM_TX + 0"
    using ks by (subst first_index_skip) (auto simp: first_index_def)
  then have c: "first_index K_destroy (trace out) = NUM_TX + 2"
    by (simp add: tr first_index_def)
  have d: "last_index K_now (trace out) = NUM_TX + 3"
    by (simp add: tr last_index_def first_index_def ks(1))
  have e: "trace out ! (NUM_TX + 3) = Now System_clock 2000000000"
    by (simp add: tr nth_append ks(1))
  have z: "trace out ! 0 = Now System_clock 0" by (simp add: tr)
  show ?thesis unfolding out_def [symmetric] using m a b c d e z by simp
qed

text \<open>
  C3, amended. In every run the start timestamp is read from the system clock before the
  client is created, and the end timestamp is read from the system clock after the last
  submission and after the client is destroyed. The elapsed microseconds are taken from
  end minus start, so they span the creation of the client, the \<open>NUM_TX\<close> submissions
  and the destruction of the client.
\<close>

theorem timestamps_span_whole_session:
  "main e = Inr out \<Longrightarrow>
     (\<exists>sends.
        trace out = Now System_clock (start out)
                    # Create_client_instance address credential (client out)
                    # sends @ [Destroy_client_instance (client out),
                               Now System_clock (finish out), Cout (report out)] \<and>
        map kind_of sends = replicate NUM_TX K_send) \<and>
     microseconds out = duration_cast_microseconds (finish out - start out) \<and>
     first_index K_now (trace out) < first_index K_create (trace out) \<and>
     first_index K_destroy (trace out) < last_index K_now (trace out)"
proof -
  assume m: "main e = Inr out"
  then have r: "run NUM_TX e = Inr out" by (simp add: main_def)
  from main_trace [OF m] obtain sends where
    tr: "trace out = Now System_clock (start out)
                 # Create_client_instance address credential (client out)
                 # sends @ [Destroy_client_instance (client out),
                            Now System_clock (finish out), Cout (report out)]"
    and k: "map kind_of sends = replicate NUM_TX K_send"
    by blast
  note ks = kinds_all_send [OF k]
  have a: "first_index K_now (trace out) = 0" by (simp add: tr first_index_def)
  have b: "first_index K_create (trace out) = 1" by (simp add: tr first_index_def)
  have "first_index K_destroy (sends @ [Destroy_client_instance (client out),
          Now System_clock (finish out), Cout (report out)]) = NUM_TX + 0"
    using ks by (subst first_index_skip) (auto simp: first_index_def)
  then have c: "first_index K_destroy (trace out) = NUM_TX + 2"
    by (simp add: tr first_index_def)
  have d: "last_index K_now (trace out) = NUM_TX + 3"
    by (simp add: tr last_index_def first_index_def ks(1))
  from tr k have "\<exists>sends.
        trace out = Now System_clock (start out)
                    # Create_client_instance address credential (client out)
                    # sends @ [Destroy_client_instance (client out),
                               Now System_clock (finish out), Cout (report out)] \<and>
        map kind_of sends = replicate NUM_TX K_send" by blast
  with run_fields(4) [OF r] a b c d show ?thesis by simp
qed

theorem timestamps_span_whole_session_witness:
  "main (test_env 7 9 1 Ack) = Inr (projr (main (test_env 7 9 1 Ack))) \<and>
   hd (trace (projr (main (test_env 7 9 1 Ack)))) = Now System_clock 7 \<and>
   first_index K_now (trace (projr (main (test_env 7 9 1 Ack))))
     < first_index K_create (trace (projr (main (test_env 7 9 1 Ack))))"
proof -
  define out where "out = projr (main (test_env 7 9 1 Ack))"
  have m: "main (test_env 7 9 1 Ack) = Inr out"
    unfolding out_def by (rule main_projr)
  then have r: "run NUM_TX (test_env 7 9 1 Ack) = Inr out"
    by (simp add: main_def)
  from timestamps_span_whole_session [OF m] run_test_env(1) [OF r] m
  show ?thesis unfolding out_def [symmetric] by auto
qed

text \<open>
  C4 as it is stated does not hold: when \<open>create_client_instance\<close> returns the null
  pointer, the run still submits 10000 transactions and returns 0.
\<close>

theorem connection_failure_counterexample:
  "main (test_env 0 1000000000 null_client Remote_error)
     = Inr (projr (main (test_env 0 1000000000 null_client Remote_error))) \<and>
   client (projr (main (test_env 0 1000000000 null_client Remote_error))) = null_client \<and>
   length (sent (trace (projr (main (test_env 0 1000000000 null_client Remote_error))))) = 10000 \<and>
   exit_code (projr (main (test_env 0 1000000000 null_client Remote_error))) = 0"
proof -
  define out where "out = projr (main (test_env 0 1000000000 null_client Remote_error))"
  have m: "main (test_env 0 1000000000 null_client Remote_error) = Inr out"
    unfolding out_def by (rule main_projr)
  then have r: "run NUM_TX (test_env 0 1000000000 null_client Remote_error) = Inr out"
    by (simp add: main_def)
  have "length (sent (trace out)) = NUM_TX" by (simp add: main_sent [OF m])
  then have "length (sent (trace out)) = 10000" by (simp only: NUM_TX_def)
  with m run_test_env(3) [OF r] main_exit_code [OF m]
  show ?thesis unfolding out_def [symmetric] by simp
qed

text \<open>
  C4, amended. A run in which \<open>create_client_instance\<close> returns the null pointer goes on
  as any other, as far as the calls into the library return: it submits all \<open>NUM_TX\<close>
  transactions on the null handle, destroys the null handle once, prints the report for
  \<open>NUM_TX\<close> transactions as its last action and returns the exit status 0.
\<close>

theorem connection_failure_unnoticed:
  "main e = Inr out \<Longrightarrow> client out = null_client \<Longrightarrow>
     sent (trace out) = map (\<lambda>i. (null_client, key_namespace, decimal i)) [0..<NUM_TX] \<and>
     filter (\<lambda>ev. kind_of ev = K_destroy) (trace out) = [Destroy_client_instance null_client] \<and>
     last (trace out) = Cout (report out) \<and>
     report out ! 1 = Int_item (int NUM_TX) \<and>
     exit_code out = 0"
proof -
  assume m: "main e = Inr out" and c: "client out = null_client"
  from main_trace [OF m] obtain sends where
    tr: "trace out = Now System_clock (start out)
                 # Create_client_instance address credential (client out)
                 # sends @ [Destroy_client_instance (client out),
                            Now System_clock (finish out), Cout (report out)]"
    and k: "map kind_of sends = replicate NUM_TX K_send"
    by blast
  have "filter (\<lambda>ev. kind_of ev = K_destroy) sends = []"
    using kinds_all_send(2) [OF k] by (auto simp: filter_empty_conv)
  then have "filter (\<lambda>ev. kind_of ev = K_destroy) (trace out) = [Destroy_client_instance null_client]"
    by (simp add: tr c)
  moreover have "report out ! 1 = Int_item (int NUM_TX)" by (simp add: main_report [OF m])
  ultimately show ?thesis
    using main_sent [OF m] main_last [OF m] main_exit_code [OF m] c by simp
qed

theorem connection_failure_unnoticed_witness:
  "main (test_env 0 5000 null_client Remote_error)
     = Inr (projr (main (test_env 0 5000 null_client Remote_error))) \<and>
   client (projr (main (test_env 0 5000 null_client Remote_error))) = null_client \<and>
   exit_code (projr (main (test_env 0 5000 null_client Remote_error))) = 0 \<and>
   report (projr (main (test_env 0 5000 null_client Remote_error))) ! 1 = Int_item 10000"
proof -
  define out where "out = projr (main (test_env 0 5000 null_client Remote_error))"
  have m: "main (test_env 0 5000 null_client Remote_error) = Inr out"
    unfolding out_def by (rule main_projr)
  then have r: "run NUM_TX (test_env 0 5000 null_client Remote_error) = Inr out"
    by (simp add: main_def)
  have c: "client out = null_client" by (rule run_test_env(3) [OF r])
  from connection_failure_unnoticed [OF m c] m c
  show ?thesis unfolding out_def [symmetric] by (simp add: NUM_TX_def)
qed

text \<open>
  C5 as it is stated does not hold: the report has no successful count. In a run where
  every submission is answered by an error, the successful count is 0, and the report
  consists of the requested count 10000, the elapsed seconds 1 and the throughput 10000.
\<close>

theorem report_fields_counterexample:
  "main (test_env 0 1000000000 1 Remote_error)
     = Inr (projr (main (test_env 0 1000000000 1 Remote_error))) \<and>
   successful_count (trace (projr (main (test_env 0 1000000000 1 Remote_error)))) = 0 \<and>
   report (projr (main (test_env 0 1000000000 1 Remote_error))) =
     [Text ''Sending '', Int_item 10000, Text '' transactions took '', Double_item (Finite 1),
      Text ''s, resulting in '', Double_item (Finite 10000), Text ''TPS.'', Endl] \<and>
   Int_item (int (successful_count (trace (projr (main (test_env 0 1000000000 1 Remote_error))))))
     \<notin> set (report (projr (main (test_env 0 1000000000 1 Remote_error))))"
proof -
  define out where "out = projr (main (test_env 0 1000000000 1 Remote_error))"
  have m: "main (test_env 0 1000000000 1 Remote_error) = Inr out"
    unfolding out_def by (rule main_projr)
  then have r: "run NUM_TX (test_env 0 1000000000 1 Remote_error) = Inr out"
    by (simp add: main_def)
  have us: "microseconds out = 1000000"
    using run_fields(4) [OF r] run_test_env(1,2) [OF r]
    by (simp add: duration_cast_microseconds_def signed_divide_int_def)
  have secs: "seconds out = Finite 1"
    using run_fields(5) [OF r] by (simp add: us double_of_int_def)
  have rate: "tps out = Finite 10000"
    using run_fields(6) [OF r] by (simp add: secs double_of_int_def NUM_TX_def)
  have cnt: "successful_count (trace out) = 0"
    using run_test_env(4) [OF r] by simp
  have rep: "report out =
     [Text ''Sending '', Int_item 10000, Text '' transactions took '', Double_item (Finite 1),
      Text ''s, resulting in '', Double_item (Finite 10000), Text ''TPS.'', Endl]"
    by (simp add: main_report [OF m] secs rate NUM_TX_def)
  show ?thesis unfolding out_def [symmetric] using m cnt rep by simp
qed

text \<open>
  C5, amended. The report, printed as the last action of every run, contains three
  numbers: the requested transaction count \<open>NUM_TX\<close>, the elapsed seconds and the
  computed throughput, in this order inside a fixed sentence. It contains no count of
  successful submissions.
\<close>

theorem report_contents:
  "main e = Inr out \<Longrightarrow>
     last (trace out) = Cout (report out) \<and>
     report out = [Text ''Sending '', Int_item (int NUM_TX), Text '' transactions took '',
                   Double_item (seconds out), Text ''s, resulting in '',
                   Double_item (tps out), Text ''TPS.'', Endl] \<and>
     report_text fmt (report out) =
       ''Sending 10000 transactions took '' @ fmt (seconds out) @ ''s, resulting in ''
       @ fmt (tps out) @ ''TPS.'' @ [CHR 0x0A]"
proof -
  assume m: "main e = Inr out"
  have "report_text fmt (report out) =
       ''Sending 10000 transactions took '' @ fmt (seconds out) @ ''s, resulting in ''
       @ fmt (tps out) @ ''TPS.'' @ [CHR 0x0A]"
    by (simp add: main_report [OF m] report_text_def NUM_TX_def decimal_10000)
  with main_last [OF m] main_report [OF m] show ?thesis by simp
qed

theorem report_contents_witness:
  "main (test_env 0 3000000000 1 Ack) = Inr (projr (main (test_env 0 3000000000 1 Ack))) \<and>
   report_text (\<lambda>d. ''#'') (report (projr (main (test_env 0 3000000000 1 Ack)))) =
     ''Sending 10000 transactions took #s, resulting in #TPS.'' @ [CHR 0x0A]"
proof -
  have m: "main (test_env 0 3000000000 1 Ack) = Inr (projr (main (test_env 0 3000000000 1 Ack)))"
    by (rule main_projr)
  from report_contents [OF m, of "\<lambda>d. ''#''"] m show ?thesis
    by (simp add: report_text_def NUM_TX_def decimal_10000)
qed

text \<open>
  C6. In every run the client is created once and destroyed once, the handle destroyed is
  the handle created, and the destruction comes after the creation; \<open>main\<close> has a single
  path to its end, so this holds on every exit path. Closing a session that is closed
  already leaves it closed and is not an error.
\<close>

theorem client_destroyed_once:
  "main e = Inr out \<Longrightarrow>
     filter (\<lambda>ev. kind_of ev = K_create) (trace out)
       = [Create_client_instance address credential (client out)] \<and>
     filter (\<lambda>ev. kind_of ev = K_destroy) (trace out)
       = [Destroy_client_instance (client out)] \<and>
     first_index K_create (trace out) < first_index K_destroy (trace out) \<and>
     close Open = Inr Closed \<and> close Closed = Inr Closed"
proof -
  assume m: "main e = Inr out"
  from main_trace [OF m] obtain sends where
    tr: "trace out = Now System_clock (start out)
                 # Create_client_instance address credential (client out)
                 # sends @ [Destroy_client_instance (client out),
                            Now System_clock (finish out), Cout (report out)]"
    and k: "map kind_of sends = replicate NUM_TX K_send"
    by blast
  note ks = kinds_all_send [OF k]
  have a: "filter (\<lambda>ev. kind_of ev = K_create) sends = []"
    using ks(2) by (auto simp: filter_empty_conv)
  have b: "filter (\<lambda>ev. kind_of ev = K_destroy) sends = []"
    using ks(2) by (auto simp: filter_empty_conv)
  have "first_index K_destroy (sends @ [Destroy_client_instance (client out),
          Now System_clock (finish out), Cout (report out)]) = NUM_TX + 0"
    using ks by (subst first_index_skip) (auto simp: first_index_def)
  then have c: "first_index K_destroy (trace out) = NUM_TX + 2"
    by (simp add: tr first_index_def)
  have d: "first_index K_create (trace out) = 1" by (simp add: tr first_index_def)
  show ?thesis using a b c d by (simp add: tr close_def)
qed

theorem client_destroyed_once_witness:
  "main (test_env 0 1 4 Remote_error) = Inr (projr (main (test_env 0 1 4 Remote_error))) \<and>
   filter (\<lambda>ev. kind_of ev = K_destroy) (trace (projr (main (test_env 0 1 4 Remote_error))))
     = [Destroy_client_instance 4]"
proof -
  define out where "out = projr (main (test_env 0 1 4 Remote_error))"
  have m: "main (test_env 0 1 4 Remote_error) = Inr out"
    unfolding out_def by (rule main_projr)
  then have r: "run NUM_TX (test_env 0 1 4 Remote_error) = Inr out"
    by (simp add: main_def)
  from client_destroyed_once [OF m] run_test_env(3) [OF r] m
  show ?thesis unfolding out_def [symmetric] by simp
qed

text \<open>
  C7. For the configured transaction count \<open>NUM_TX\<close>, the decimal string of every counter
  \<open>i < NUM_TX\<close> together with its terminating zero byte fits into the ten bytes of
  \<open>number\<close>, so that \<open>sprintf\<close> stays inside the buffer at every iteration.
\<close>

theorem number_buffer_fits:
  "i < NUM_TX \<Longrightarrow>
     length (decimal i) + 1 \<le> number_capacity \<and>
     (length buf = number_capacity \<longrightarrow> (\<exists>buf'. sprintf_lu buf i = Inr buf' \<and> length buf' = number_capacity))"
proof -
  assume "i < NUM_TX"
  then have "i < 10 ^ 4" by (simp add: NUM_TX_def)
  then have "length (decimal i) \<le> 4" by (intro length_decimal_le) simp_all
  then show ?thesis by (simp add: number_capacity_def sprintf_lu_def Let_def)
qed

theorem number_buffer_fits_witness:
  "(9999::nat) < NUM_TX \<and> length (decimal 9999) + 1 \<le> number_capacity \<and>
   sprintf_lu number_init 9999 = Inr (''9999'' @ NUL # replicate 5 NUL)"
  using number_buffer_fits [of 9999 number_init]
  by (simp add: NUM_TX_def number_capacity_def number_init_def sprintf_lu_def
      decimal.simps digit_char_def)

text \<open>
  C8 as it is stated does not hold: the program takes no input. Started with another
  address, credential, count and namespace, it still connects to \<open>127.0.0.1:3133\<close> with
  the built-in credential and submits 10000 transactions under the key \<open>prellblock\<close>.
\<close>

theorem configuration_counterexample:
  "program [''10.0.0.7:4000'', ''secret'', ''3'', ''ns''] (test_env 0 1000000000 1 Ack)
     = Inr (projr (program [''10.0.0.7:4000'', ''secret'', ''3'', ''ns'']
                     (test_env 0 1000000000 1 Ack))) \<and>
   trace (projr (program [''10.0.0.7:4000'', ''secret'', ''3'', ''ns'']
                   (test_env 0 1000000000 1 Ack))) ! 1
     = Create_client_instance ''127.0.0.1:3133''
         ''406ed6170c8672e18707fb7512acf3c9dbfc6e5ad267d9a57b9c486a94d99dcc'' 1 \<and>
   length (submitted (trace (projr (program [''10.0.0.7:4000'', ''secret'', ''3'', ''ns'']
                                      (test_env 0 1000000000 1 Ack))))) = 10000 \<and>
   hd (submitted (trace (projr (program [''10.0.0.7:4000'', ''secret'', ''3'', ''ns'']
                                  (test_env 0 1000000000 1 Ack))))) = (''prellblock'', ''0'')"
proof -
  define out where "out = projr (program [''10.0.0.7:4000'', ''secret'', ''3'', ''ns'']
                                   (test_env 0 1000000000 1 Ack))"
  have m: "main (test_env 0 1000000000 1 Ack) = Inr out"
    unfolding out_def program_def by (rule main_projr)
  then have r: "run NUM_TX (test_env 0 1000000000 1 Ack) = Inr out"
    by (simp add: main_def)
  have p: "program [''10.0.0.7:4000'', ''secret'', ''3'', ''ns''] (test_env 0 1000000000 1 Ack)
             = Inr out"
    using m by (simp add: program_def)
  have a: "trace out ! 1 = Create_client_instance ''127.0.0.1:3133''
         ''406ed6170c8672e18707fb7512acf3c9dbfc6e5ad267d9a57b9c486a94d99dcc'' 1"
    using main_create [OF m] run_test_env(3) [OF r] by (simp add: address_def credential_def)
  have "length (submitted (trace out)) = NUM_TX" by (simp add: main_submitted [OF m])
  then have b: "length (submitted (trace out)) = 10000" by (simp only: NUM_TX_def)
  have "0 < NUM_TX" by (simp add: NUM_TX_def)
  then have "[0..<NUM_TX] = 0 # [Suc 0..<NUM_TX]" by (rule upt_conv_Cons)
  then have c: "hd (submitted (trace out)) = (''prellblock'', ''0'')"
    by (simp add: main_submitted [OF m] key_namespace_def decimal.simps digit_char_def)
  show ?thesis unfolding out_def [symmetric] using p a b c by simp
qed

text \<open>
  C8, amended. The target address, the credential, the transaction count and the key
  namespace are constants of the program: whatever the process is started with, a run
  creates its one client for \<open>127.0.0.1:3133\<close> with the built-in credential and submits
  exactly \<open>NUM_TX = 10000\<close> transactions, each under the key \<open>prellblock\<close>.
\<close>

theorem configuration_is_fixed:
  "program argv e = Inr out \<Longrightarrow>
     trace out ! 1 = Create_client_instance ''127.0.0.1:3133''
         ''406ed6170c8672e18707fb7512acf3c9dbfc6e5ad267d9a57b9c486a94d99dcc'' (client out) \<and>
     filter (\<lambda>ev. kind_of ev = K_create) (trace out) = [trace out ! 1] \<and>
     submitted (trace out) = map (\<lambda>i. (''prellblock'', decimal i)) [0..<NUM_TX] \<and>
     NUM_TX = 10000"
proof -
  assume "program argv e = Inr out"
  then have m: "main e = Inr out" by (simp add: program_def)
  from main_trace [OF m] obtain sends where
    tr: "trace out = Now System_clock (start out)
                 # Create_client_instance address credential (client out)
                 # sends @ [Destroy_client_instance (client out),
                            Now System_clock (finish out), Cout (report out)]"
    and k: "map kind_of sends = replicate NUM_TX K_send"
    by blast
  have a: "filter (\<lambda>ev. kind_of ev = K_create) sends = []"
    using kinds_all_send(2) [OF k] by (auto simp: filter_empty_conv)
  have "filter (\<lambda>ev. kind_of ev = K_create) (trace out) = [trace out ! 1]"
    by (simp add: tr a)
  moreover have "NUM_TX = 10000" by (simp add: NUM_TX_def)
  ultimately show ?thesis using main_create [OF m] main_submitted [OF m]
    by (simp add: address_def credential_def key_namespace_def)
qed

theorem configuration_is_fixed_witness:
  "program [''other:1'', ''key'', ''7'', ''ns''] (test_env 0 10 3 Ack)
     = Inr (projr (program [''other:1'', ''key'', ''7'', ''ns''] (test_env 0 10 3 Ack))) \<and>
   length (submitted (trace (projr (program [''other:1'', ''key'', ''7'', ''ns'']
                                      (test_env 0 10 3 Ack))))) = 10000"
proof -
  have p: "program [''other:1'', ''key'', ''7'', ''ns''] (test_env 0 10 3 Ack)
     = Inr (projr (program [''other:1'', ''key'', ''7'', ''ns''] (test_env 0 10 3 Ack)))"
    unfolding program_def by (rule main_projr)
  from configuration_is_fixed [OF p] have
    "submitted (trace (projr (program [''other:1'', ''key'', ''7'', ''ns''] (test_env 0 10 3 Ack))))
       = map (\<lambda>i. (''prellblock'', decimal i)) [0..<NUM_TX]" and n: "NUM_TX = 10000"
    by blast+
  then have "length (submitted (trace (projr (program [''other:1'', ''key'', ''7'', ''ns'']
                                      (test_env 0 10 3 Ack))))) = NUM_TX"
    by simp
  with p n show ?thesis by (simp only: simp_thms)
qed



text \<open>
  C10. The program is deterministic: two runs that observe the same two clock readings
  submit the same sequence of (namespace, value) pairs and print the same report, as items
  and as text; if they also receive the same handle and the same results of their
  submissions, their whole histories of calls are the same.
\<close>

theorem runs_are_deterministic:
  "main e = Inr out \<Longrightarrow> main e' = Inr out' \<Longrightarrow>
   start out = start out' \<Longrightarrow> finish out = finish out' \<Longrightarrow>
     submitted (trace out) = submitted (trace out') \<and>
     report out = report out' \<and>
     report_text fmt (report out) = report_text fmt (report out') \<and>
     (client out = client out' \<and> results (trace out) = results (trace out')
        \<longrightarrow> trace out = trace out')"
proof -
  assume m: "main e = Inr out" and m': "main e' = Inr out'"
    and s: "start out = start out'" and f: "finish out = finish out'"
  from m m' have r: "run NUM_TX e = Inr out" and r': "run NUM_TX e' = Inr out'"
    by (simp_all add: main_def)
  have us: "microseconds out = microseconds out'"
    using run_fields(4) [OF r] run_fields(4) [OF r'] s f by simp
  then have secs: "seconds out = seconds out'"
    using run_fields(5) [OF r] run_fields(5) [OF r'] by simp
  then have rate: "tps out = tps out'"
    using run_fields(6) [OF r] run_fields(6) [OF r'] by simp
  have rep: "report out = report out'"
    by (simp add: main_report [OF m] main_report [OF m'] secs rate)
  have sub: "submitted (trace out) = submitted (trace out')"
    by (simp add: main_submitted [OF m] main_submitted [OF m'])
  have "trace out = trace out'"
    if c: "client out = client out'" and rs: "results (trace out) = results (trace out')"
  proof -
    from main_trace [OF m] obtain sends where
      tr: "trace out = Now System_clock (start out)
                 # Create_client_instance address credential (client out)
                 # sends @ [Destroy_client_instance (client out),
                            Now System_clock (finish out), Cout (report out)]"
      and k: "map kind_of sends = replicate NUM_TX K_send"
      and a: "sent sends = map (\<lambda>k. (client out, key_namespace, decimal k)) [0..<NUM_TX]"
      by blast
    from main_trace [OF m'] obtain sends' where
      tr': "trace out' = Now System_clock (start out')
                 # Create_client_instance address credential (client out')
                 # sends' @ [Destroy_client_instance (client out'),
                            Now System_clock (finish out'), Cout (report out')]"
      and k': "map kind_of sends' = replicate NUM_TX K_send"
      and a': "sent sends' = map (\<lambda>k. (client out', key_namespace, decimal k)) [0..<NUM_TX]"
      by blast
    have "results sends = results sends'"
      using rs results_main [OF tr] results_main [OF tr'] by simp
    moreover have "sent sends = sent sends'" by (simp add: a a' c)
    ultimately have "sends = sends'" using sends_determined [OF k k'] by simp
    then show ?thesis by (simp add: tr tr' s f c rep)
  qed
  with sub rep show ?thesis by simp
qed

theorem runs_are_deterministic_witness:
  "main (test_env 3 8 1 Ack) = Inr (projr (main (test_env 3 8 1 Ack))) \<and>
   main (test_env 3 8 2 Remote_error) = Inr (projr (main (test_env 3 8 2 Remote_error))) \<and>
   start (projr (main (test_env 3 8 1 Ack))) = start (projr (main (test_env 3 8 2 Remote_error))) \<and>
   finish (projr (main (test_env 3 8 1 Ack))) = finish (projr (main (test_env 3 8 2 Remote_error))) \<and>
   submitted (trace (projr (main (test_env 3 8 1 Ack))))
     = submitted (trace (projr (main (test_env 3 8 2 Remote_error)))) \<and>
   report (projr (main (test_env 3 8 1 Ack))) = report (projr (main (test_env 3 8 2 Remote_error)))"
proof -
  define out where "out = projr (main (test_env 3 8 1 Ack))"
  define out' where "out' = projr (main (test_env 3 8 2 Remote_error))"
  have m: "main (test_env 3 8 1 Ack) = Inr out"
    unfolding out_def by (rule main_projr)
  have m': "main (test_env 3 8 2 Remote_error) = Inr out'"
    unfolding out'_def by (rule main_projr)
  from m m' have r: "run NUM_TX (test_env 3 8 1 Ack) = Inr out"
    and r': "run NUM_TX (test_env 3 8 2 Remote_error) = Inr out'"
    by (simp_all add: main_def)
  have s: "start out = start out'"
    using run_test_env(1) [OF r] run_test_env(1) [OF r'] by simp
  have f: "finish out = finish out'"
    using run_test_env(2) [OF r] run_test_env(2) [OF r'] by simp
  from runs_are_deterministic [OF m m' s f] m m' s f
  show ?thesis unfolding out_def [symmetric] out'_def [symmetric] by simp
qed

end
